theory Spec2Isabelle
  imports Complex_Main "HOL-Library.AList" "HOL-Library.Multiset" "HOL-Library.Product_Lexorder"
begin

section \<open>Range chunker (api_xgb_data.py, make_year_chunks)\<close>

text \<open>
  \<open>make_year_chunks\<close> receives two calendar dates. After \<open>pd.to_datetime\<close> they are
  midnight timestamps, which the function only compares, reads the year of, and prints
  with \<open>strftime("%Y-%m-%d")\<close>. A date is therefore kept as its civil fields
  (year, month, day); the chronological order of dates is the lexicographic order of
  these triples. The representable range of a pandas timestamp is not modelled.
\<close>

type_synonym date = "int \<times> int \<times> int"

definition ts_year :: "date \<Rightarrow> int" where
  "ts_year d = fst d"

definition ts_month :: "date \<Rightarrow> int" where
  "ts_month d = fst (snd d)"

definition ts_day :: "date \<Rightarrow> int" where
  "ts_day d = snd (snd d)"

definition is_leap :: "int \<Rightarrow> bool" where
  "is_leap y = (y mod 4 = 0 \<and> (y mod 100 \<noteq> 0 \<or> y mod 400 = 0))"

definition days_in_month :: "int \<Rightarrow> int \<Rightarrow> int" where
  "days_in_month y m =
     (if m = 2 then (if is_leap y then 29 else 28)
      else if m = 4 \<or> m = 6 \<or> m = 9 \<or> m = 11 then 30 else 31)"

definition valid_date :: "date \<Rightarrow> bool" where
  "valid_date d =
     (1 \<le> ts_month d \<and> ts_month d \<le> 12 \<and>
      1 \<le> ts_day d \<and> ts_day d \<le> days_in_month (ts_year d) (ts_month d))"

text \<open>\<open>strftime("%Y-%m-%d")\<close>: the year on four digits, month and day on two.\<close>

definition digit_char :: "nat \<Rightarrow> char" where
  "digit_char n = ''0123456789'' ! (n mod 10)"

fun digits :: "nat \<Rightarrow> string" where
  "digits n = (if n < 10 then [digit_char n] else digits (n div 10) @ [digit_char n])"

definition zero_pad :: "nat \<Rightarrow> nat \<Rightarrow> string" where
  "zero_pad w n = replicate (w - length (digits n)) CHR ''0'' @ digits n"

definition strftime_ymd :: "date \<Rightarrow> string" where
  "strftime_ymd d =
     zero_pad 4 (nat (ts_year d)) @ ''-'' @ zero_pad 2 (nat (ts_month d)) @ ''-'' @
     zero_pad 2 (nat (ts_day d))"

text \<open>
  The \<open>while year <= end.year\<close> loop, with the loop variables \<open>year\<close> and \<open>chunks\<close>
  as arguments.
\<close>

function year_loop :: "date \<Rightarrow> date \<Rightarrow> int \<Rightarrow> (string \<times> string) list \<Rightarrow> (string \<times> string) list" where
  "year_loop start end year chunks =
     (if year \<le> ts_year end then
        (let y0 = (year, 1, 1);
             y1 = (year, 12, 31);
             s = max start y0;
             e = min end y1
         in year_loop start end (year + 1) (chunks @ [(strftime_ymd s, strftime_ymd e)]))
      else chunks)"
  by pat_completeness auto
termination
  by (relation "measure (\<lambda>(start, end, year, chunks). nat (ts_year end + 1 - year))") auto

declare year_loop.simps [simp del]

definition make_year_chunks :: "date \<Rightarrow> date \<Rightarrow> (string \<times> string) list" where
  "make_year_chunks start end = year_loop start end (ts_year start) []"

text \<open>The date pair a chunk is printed from, for calendar year \<open>y\<close>.\<close>

definition year_piece :: "date \<Rightarrow> date \<Rightarrow> int \<Rightarrow> date \<times> date" where
  "year_piece start end y = (max start (y, 1, 1), min end (y, 12, 31))"

definition in_piece :: "date \<Rightarrow> date \<times> date \<Rightarrow> bool" where
  "in_piece d p = (fst p \<le> d \<and> d \<le> snd p)"

definition fmt_piece :: "date \<times> date \<Rightarrow> string \<times> string" where
  "fmt_piece p = (strftime_ymd (fst p), strftime_ymd (snd p))"

definition year_pieces :: "date \<Rightarrow> date \<Rightarrow> (date \<times> date) list" where
  "year_pieces start end = map (year_piece start end) [ts_year start..ts_year end]"

section \<open>Timestamps of the hourly tables\<close>

text \<open>
  A timestamp of an hourly table is a naive local time, kept as its offset from
  1970-01-01 00:00 in seconds; \<open>pd.Timedelta(hours=1)\<close> is 3600. The \<open>.dt\<close>
  accessors and the timestamp attributes of pandas read the civil fields of the
  proleptic Gregorian calendar off this offset.
\<close>

type_synonym timestamp = int

definition hours :: "int \<Rightarrow> int" where
  "hours n = 3600 * n"

definition civil_from_days :: "int \<Rightarrow> int \<times> int \<times> int" where
  "civil_from_days z0 =
     (let z = z0 + 719468;
          era = z div 146097;
          doe = z mod 146097;
          yoe = (doe - doe div 1460 + doe div 36524 - doe div 146096) div 365;
          y = yoe + era * 400;
          doy = doe - (365 * yoe + yoe div 4 - yoe div 100);
          mp = (5 * doy + 2) div 153;
          d = doy - (153 * mp + 2) div 5 + 1;
          m = (if mp < 10 then mp + 3 else mp - 9)
      in (if m \<le> 2 then y + 1 else y, m, d))"

definition dt_date :: "timestamp \<Rightarrow> date" where
  "dt_date t = civil_from_days (t div 86400)"

definition dt_year :: "timestamp \<Rightarrow> int" where
  "dt_year t = ts_year (dt_date t)"

definition dt_month :: "timestamp \<Rightarrow> int" where
  "dt_month t = ts_month (dt_date t)"

definition dt_day :: "timestamp \<Rightarrow> int" where
  "dt_day t = ts_day (dt_date t)"

definition dt_hour :: "timestamp \<Rightarrow> int" where
  "dt_hour t = (t mod 86400) div 3600"

definition dt_minute :: "timestamp \<Rightarrow> int" where
  "dt_minute t = (t mod 3600) div 60"

text \<open>Monday is 0; 1970-01-01 was a Thursday.\<close>

definition dt_dayofweek :: "timestamp \<Rightarrow> int" where
  "dt_dayofweek t = (t div 86400 + 3) mod 7"

definition days_before_month :: "int \<Rightarrow> int \<Rightarrow> int" where
  "days_before_month y m = sum_list (map (days_in_month y) [1..m - 1])"

definition dt_dayofyear :: "timestamp \<Rightarrow> int" where
  "dt_dayofyear t = days_before_month (dt_year t) (dt_month t) + dt_day t"

text \<open>\<open>Series.is_monotonic_increasing\<close> (not strict) and \<open>Series.diff().dropna()\<close>.\<close>

definition is_monotonic_increasing :: "timestamp list \<Rightarrow> bool" where
  "is_monotonic_increasing ts = sorted ts"

definition diffs :: "timestamp list \<Rightarrow> int list" where
  "diffs ts = map2 (\<lambda>b a. b - a) (tl ts) ts"

section \<open>Normalisation of the fetched tables (api_xgb_data.py, main block)\<close>

text \<open>
  \<open>json_to_dataframe\<close> builds frames with exactly the columns \<open>time\<close> and
  \<open>temp_obs\<close>; such a frame is kept row by row. A temperature the provider left out
  (\<open>null\<close>, NaN in the frame) is \<open>None\<close>. Temperatures are exact reals: the rounding
  of 64-bit floats is not modelled.

  \<open>sort_values("time")\<close> is called with the default \<open>kind="quicksort"\<close>, which is
  not stable: rows come out in ascending time, and the order among rows of equal time
  is whatever the sorting routine leaves. The sort is therefore an argument
  \<open>sort_values\<close> of the model, of which only \<open>sorts_by_time\<close> is known: the result
  holds the same rows, in ascending time.
\<close>

type_synonym obs_row = "timestamp \<times> real option"

definition row_time :: "obs_row \<Rightarrow> timestamp" where
  "row_time r = fst r"


definition sorts_by_time :: "(obs_row list \<Rightarrow> obs_row list) \<Rightarrow> bool" where
  "sorts_by_time sort_values =
     (\<forall>df. mset (sort_values df) = mset df \<and> sorted (map row_time (sort_values df)))"

text \<open>\<open>drop_duplicates(subset=["time"], keep="first")\<close>.\<close>

fun drop_duplicates_time :: "obs_row list \<Rightarrow> obs_row list" where
  "drop_duplicates_time [] = []"
| "drop_duplicates_time (r # rs) =
     r # drop_duplicates_time (filter (\<lambda>r'. row_time r' \<noteq> row_time r) rs)"

datatype norm_error = NoDataFetched | NotIncreasing | NonHourlyTimestamps

record norm_result =
  df_all :: "obs_row list"
  dropped :: nat
  bad :: nat

text \<open>
  The main block from \<open>if len(dfs) == 0\<close> on: the list \<open>dfs\<close> holds the fetched and
  clipped frames. The two \<open>assert\<close> statements are the failure branches; the result
  carries the table that is saved and the two counts that are printed.
\<close>

definition normalize ::
  "(obs_row list \<Rightarrow> obs_row list) \<Rightarrow> obs_row list list \<Rightarrow> norm_error + norm_result" where
  "normalize sort_values dfs =
     (if length dfs = 0 then Inl NoDataFetched
      else
        (let all0 = sort_values (concat dfs);
             before = length all0;
             all1 = drop_duplicates_time all0;
             n_dropped = before - length all1
         in if \<not> is_monotonic_increasing (map row_time all1) then Inl NotIncreasing
            else if \<not> list_all (\<lambda>t. dt_hour t \<in> set [0..23]) (map row_time all1)
              then Inl NonHourlyTimestamps
            else Inr \<lparr> df_all = all1, dropped = n_dropped,
                       bad = length (filter (\<lambda>d. d \<noteq> hours 1) (diffs (map row_time all1))) \<rparr>))"

section \<open>Data frames of the feature builder (build_features.py)\<close>

text \<open>
  A frame is the ordered list of its columns, each a name with its cells.
  \<open>df[name] = col\<close> replaces the column in place when the name exists and appends it
  otherwise, which is \<open>AList.update\<close>. All columns of a frame have the same length.
\<close>

datatype cell = TimeC timestamp | IntC int | FltC real | NaN

type_synonym dataframe = "(string \<times> cell list) list"

datatype error =
    KeyError string
  | Unparsed
  | MissingColumns
  | NotSorted
  | NonHourlyGaps
  | EmptyAfterCutoff
  | NotNumeric
  | Leakage

definition df_columns :: "dataframe \<Rightarrow> string list" where
  "df_columns df = map fst df"

definition df_col :: "dataframe \<Rightarrow> string \<Rightarrow> cell list option" where
  "df_col df name = map_of df name"

definition df_assign :: "dataframe \<Rightarrow> string \<Rightarrow> cell list \<Rightarrow> dataframe" where
  "df_assign df name col = AList.update name col df"

definition nrows :: "dataframe \<Rightarrow> nat" where
  "nrows df = (case df of [] \<Rightarrow> 0 | (name, col) # rest \<Rightarrow> length col)"

definition wf_frame :: "dataframe \<Rightarrow> bool" where
  "wf_frame df = (distinct (map fst df) \<and> list_all (\<lambda>(name, col). length col = nrows df) df)"

text \<open>Row selection by positions (boolean masks, sorting, \<open>dropna\<close>).\<close>

definition take_rows :: "nat list \<Rightarrow> dataframe \<Rightarrow> dataframe" where
  "take_rows idx df = map (\<lambda>(name, col). (name, map (\<lambda>i. col ! i) idx)) df"

text \<open>
  \<open>pd.to_datetime\<close> on a column: the cells of a time column are held parsed. What
  pandas makes of numbers or text in a time column is not modelled; such a column is
  reported as \<open>Unparsed\<close>.
\<close>

definition time_of :: "cell \<Rightarrow> timestamp option" where
  "time_of c = (case c of TimeC t \<Rightarrow> Some t | _ \<Rightarrow> None)"

definition to_datetime :: "cell list \<Rightarrow> error + timestamp list" where
  "to_datetime col =
     (case those (map time_of col) of None \<Rightarrow> Inl Unparsed | Some ts \<Rightarrow> Inr ts)"

text \<open>\<open>pd.to_datetime(df[ts_col])\<close>: a missing column is a \<open>KeyError\<close>.\<close>

definition time_column :: "dataframe \<Rightarrow> string \<Rightarrow> error + timestamp list" where
  "time_column df ts_col =
     (case df_col df ts_col of None \<Rightarrow> Inl (KeyError ts_col) | Some c \<Rightarrow> to_datetime c)"

text \<open>A numeric column read as floats: NaN is \<open>None\<close>; a time cell is not a number.\<close>

definition num_of :: "cell \<Rightarrow> real option option" where
  "num_of c = (case c of FltC r \<Rightarrow> Some (Some r) | IntC n \<Rightarrow> Some (Some (of_int n))
     | NaN \<Rightarrow> Some None | TimeC t \<Rightarrow> None)"

definition to_numeric :: "cell list \<Rightarrow> real option list option" where
  "to_numeric col = those (map num_of col)"

definition cell_of :: "real option \<Rightarrow> cell" where
  "cell_of v = (case v of None \<Rightarrow> NaN | Some r \<Rightarrow> FltC r)"

subsection \<open>add_time_features\<close>

definition add_time_features :: "dataframe \<Rightarrow> string \<Rightarrow> error + dataframe" where
  "add_time_features df ts_col =
        (case time_column df ts_col of
           Inl e \<Rightarrow> Inl e
         | Inr ts \<Rightarrow>
           (let hour = map dt_hour ts;
                day_of_week = map dt_dayofweek ts;
                out = df_assign df ''hour'' (map IntC hour);
                out = df_assign out ''day_of_week'' (map IntC day_of_week);
                out = df_assign out ''is_weekend''
                        (map (\<lambda>d. IntC (if d \<ge> 5 then 1 else 0)) day_of_week);
                out = df_assign out ''sin_hour''
                        (map (\<lambda>h. FltC (sin (2 * pi * of_int h / 24))) hour);
                out = df_assign out ''cos_hour''
                        (map (\<lambda>h. FltC (cos (2 * pi * of_int h / 24))) hour);
                doy = map dt_dayofyear ts;
                out = df_assign out ''sin_doy''
                        (map (\<lambda>d. FltC (sin (2 * pi * of_int d / 365))) doy);
                out = df_assign out ''cos_doy''
                        (map (\<lambda>d. FltC (cos (2 * pi * of_int d / 365))) doy)
            in Inr out))"

subsection \<open>check_hourly\<close>

definition check_hourly :: "dataframe \<Rightarrow> string \<Rightarrow> error + unit" where
  "check_hourly df ts_col =
        (case time_column df ts_col of
           Inl e \<Rightarrow> Inl e
         | Inr ts \<Rightarrow>
           if \<not> is_monotonic_increasing ts then Inl NotSorted
           else if \<not> set (diffs ts) \<subseteq> {hours 1, 0} then Inl NonHourlyGaps
           else Inr ())"

subsection \<open>build_train_features\<close>

text \<open>\<open>Series.shift(n)\<close> for \<open>n \<ge> 0\<close>: the first \<open>n\<close> rows have no source.\<close>

definition shift :: "nat \<Rightarrow> real option list \<Rightarrow> real option list" where
  "shift n xs = replicate (min n (length xs)) None @ take (length xs - n) xs"

definition sub_opt :: "real option \<Rightarrow> real option \<Rightarrow> real option" where
  "sub_opt a b = (case (a, b) of (Some x, Some y) \<Rightarrow> Some (x - y) | _ \<Rightarrow> None)"

definition mean :: "real list \<Rightarrow> real" where
  "mean xs = sum_list xs / of_nat (length xs)"

text \<open>Sum of squared deviations; the standard deviation divides it by \<open>n - ddof\<close>.\<close>

definition sq_dev :: "real list \<Rightarrow> real" where
  "sq_dev xs = sum_list (map (\<lambda>x. (x - mean xs)\<^sup>2) xs)"

definition std_ddof :: "nat \<Rightarrow> real list \<Rightarrow> real" where
  "std_ddof ddof xs = sqrt (sq_dev xs / of_nat (length xs - ddof))"

text \<open>
  \<open>Series.rolling(w, min_periods=m)\<close>: the window of row \<open>i\<close> is the rows
  \<open>i - w + 1 .. i\<close> that exist, the row \<open>i\<close> itself included; its values are the cells
  that are not NaN; the statistic is NaN when fewer than \<open>m\<close> values are there.
  \<open>.std()\<close> has \<open>ddof = 1\<close> and needs two values.
\<close>

definition window_rows :: "nat \<Rightarrow> 'a list \<Rightarrow> nat \<Rightarrow> 'a list" where
  "window_rows w xs i = drop (Suc i - w) (take (Suc i) xs)"

definition present :: "real option list \<Rightarrow> real list" where
  "present xs = List.map_filter (\<lambda>x. x) xs"

definition rolling_mean :: "nat \<Rightarrow> nat \<Rightarrow> real option list \<Rightarrow> real option list" where
  "rolling_mean w m xs =
     map (\<lambda>i. let vals = present (window_rows w xs i)
              in if m \<le> length vals \<and> 0 < length vals then Some (mean vals) else None)
         [0..<length xs]"

definition rolling_std :: "nat \<Rightarrow> nat \<Rightarrow> real option list \<Rightarrow> real option list" where
  "rolling_std w m xs =
     map (\<lambda>i. let vals = present (window_rows w xs i)
              in if m \<le> length vals \<and> 1 < length vals then Some (std_ddof 1 vals) else None)
         [0..<length xs]"

definition lags :: "nat list" where
  "lags = [1, 24, 48, 72, 168]"

definition lag_name :: "nat \<Rightarrow> string" where
  "lag_name L = ''temp_lag_'' @ digits L"

text \<open>
  \<open>sort_values("time")\<close> on row positions. The default sort is not stable, so the
  order it gives to the positions is an argument \<open>sort_values\<close> of the model, of which
  only \<open>sorts_positions\<close> is known: every position once, in ascending time.
\<close>

definition sorts_positions :: "(timestamp list \<Rightarrow> nat list) \<Rightarrow> bool" where
  "sorts_positions sort_values =
     (\<forall>ts. mset (sort_values ts) = mset [0..<length ts] \<and>
           sorted (map (\<lambda>i. ts ! i) (sort_values ts)))"

text \<open>The mask \<open>df["time"] <= cutoff_ts\<close>, on row positions.\<close>

definition cutoff_positions :: "timestamp list \<Rightarrow> timestamp \<Rightarrow> nat list" where
  "cutoff_positions ts cutoff = filter (\<lambda>i. ts ! i \<le> cutoff) [0..<length ts]"

text \<open>\<open>dropna()\<close>: the rows that hold no NaN in any column.\<close>

definition complete_row :: "dataframe \<Rightarrow> nat \<Rightarrow> bool" where
  "complete_row df i = list_all (\<lambda>(name, col). col ! i \<noteq> NaN) df"

definition dropna_positions :: "dataframe \<Rightarrow> nat list" where
  "dropna_positions df = filter (complete_row df) [0..<nrows df]"

definition dropna :: "dataframe \<Rightarrow> dataframe" where
  "dropna df = take_rows (dropna_positions df) df"

text \<open>\<open>df[cols]\<close> for a list of names the frame has.\<close>

definition select_columns :: "dataframe \<Rightarrow> string list \<Rightarrow> dataframe" where
  "select_columns df cols = List.map_filter (\<lambda>c. map_option (Pair c) (df_col df c)) cols"

text \<open>
  Steps 1 and 2: the staging frame (the result of \<open>read_csv\<close>) is checked, sorted,
  validated and clipped to the cutoff.
\<close>

definition train_base ::
  "(timestamp list \<Rightarrow> nat list) \<Rightarrow> dataframe \<Rightarrow> timestamp \<Rightarrow> error + dataframe" where
  "train_base sort_values df cutoff =
     (if ''time'' \<notin> set (df_columns df) \<or> ''temp_obs'' \<notin> set (df_columns df)
      then Inl MissingColumns
      else
        (case df_col df ''time'' of
           None \<Rightarrow> Inl MissingColumns
         | Some c \<Rightarrow>
           (case to_datetime c of
              Inl e \<Rightarrow> Inl e
            | Inr ts \<Rightarrow>
              (let df1 = df_assign df ''time'' (map TimeC ts);
                   df2 = take_rows (sort_values ts) df1
               in (case check_hourly df2 ''time'' of
                     Inl e \<Rightarrow> Inl e
                   | Inr u \<Rightarrow>
                     (case time_column df2 ''time'' of
                        Inl e \<Rightarrow> Inl e
                      | Inr ts2 \<Rightarrow>
                        (let df3 = take_rows (cutoff_positions ts2 cutoff) df2
                         in if nrows df3 = 0 then Inl EmptyAfterCutoff else Inr df3)))))))"

text \<open>Step 4: the lag, difference and rolling columns, all read from \<open>temp_obs\<close>.\<close>

definition add_history_features :: "dataframe \<Rightarrow> error + dataframe" where
  "add_history_features df =
     (case df_col df ''temp_obs'' of
        None \<Rightarrow> Inl (KeyError ''temp_obs'')
      | Some c \<Rightarrow>
        (case to_numeric c of
           None \<Rightarrow> Inl NotNumeric
         | Some temp \<Rightarrow>
           (let df1 = fold (\<lambda>L d. df_assign d (lag_name L) (map cell_of (shift L temp))) lags df;
                df2 = df_assign df1 ''temp_diff_1''
                        (map cell_of (map2 sub_opt (shift 1 temp) (shift 2 temp)));
                df3 = df_assign df2 ''roll_mean_24'' (map cell_of (rolling_mean 24 24 temp));
                df4 = df_assign df3 ''roll_mean_168'' (map cell_of (rolling_mean 168 24 temp));
                df5 = df_assign df4 ''roll_std_24'' (map cell_of (rolling_std 24 24 temp));
                df6 = df_assign df5 ''roll_std_168'' (map cell_of (rolling_std 168 24 temp))
            in Inr df6)))"

text \<open>
  The whole function; the frame that is written to \<open>out_path\<close> is the result.
\<close>

definition build_train_features ::
  "(timestamp list \<Rightarrow> nat list) \<Rightarrow> dataframe \<Rightarrow> timestamp \<Rightarrow> error + dataframe" where
  "build_train_features sort_values staging cutoff =
     (case train_base sort_values staging cutoff of
        Inl e \<Rightarrow> Inl e
      | Inr df \<Rightarrow>
        (case add_time_features df ''time'' of
           Inl e \<Rightarrow> Inl e
         | Inr df1 \<Rightarrow>
           (case add_history_features df1 of
              Inl e \<Rightarrow> Inl e
            | Inr df2 \<Rightarrow>
              (let df3 = dropna df2;
                   cols = ''time'' # filter (\<lambda>c. c \<noteq> ''time'') (df_columns df3)
               in Inr (select_columns df3 cols)))))"

subsection \<open>build_infer_features\<close>

text \<open>\<open>pd.date_range(start, end, freq="h")\<close>.\<close>

definition date_range_hourly :: "timestamp \<Rightarrow> timestamp \<Rightarrow> timestamp list" where
  "date_range_hourly start end = map (\<lambda>k. start + hours k) [0..(end - start) div 3600]"

definition build_infer_features :: "timestamp \<Rightarrow> timestamp \<Rightarrow> error + dataframe" where
  "build_infer_features t0 t1 =
     (let start = t0;
          end = t1 + hours 23;
          ts = date_range_hourly start end;
          df = [(''time'', map TimeC ts)]
      in (case add_time_features df ''time'' of
            Inl e \<Rightarrow> Inl e
          | Inr df1 \<Rightarrow>
            if list_ex (\<lambda>bad. bad \<in> set (df_columns df1)) [''temp_obs'', ''temperature_2m'']
            then Inl Leakage
            else Inr df1))"

section \<open>Climatology fallback (test_truth.py)\<close>













section \<open>Properties of the range chunker\<close>

lemma year_loop_unfold:
  "year_loop start end y acc = acc @ map (fmt_piece \<circ> year_piece start end) [y..ts_year end]"
proof (induction start "end" y acc rule: year_loop.induct)
  case (1 start "end" year chunks)
  show ?case
  proof (cases "year \<le> ts_year end")
    case True
    then have "year_loop start end year chunks =
        year_loop start end (year + 1) (chunks @ [fmt_piece (year_piece start end year)])"
      by (subst year_loop.simps) (simp add: fmt_piece_def year_piece_def Let_def)
    also have "\<dots> = (chunks @ [fmt_piece (year_piece start end year)]) @
        map (fmt_piece \<circ> year_piece start end) [year + 1..ts_year end]"
      using "1.IH" [OF True refl refl refl refl] by (simp add: fmt_piece_def year_piece_def)
    also have "\<dots> = chunks @ map (fmt_piece \<circ> year_piece start end) [year..ts_year end]"
      using True by (simp add: upto_rec1 [of year])
    finally show ?thesis .
  next
    case False
    then show ?thesis by (subst year_loop.simps) simp
  qed
qed

lemma make_year_chunks_map:
  "make_year_chunks start end =
     map (fmt_piece \<circ> year_piece start end) [ts_year start..ts_year end]"
  by (simp add: make_year_chunks_def year_loop_unfold)

lemma first_of_year_le:
  "valid_date d \<Longrightarrow> ((y, 1, 1) \<le> d) = (y \<le> ts_year d)"
  by (cases d) (auto simp: valid_date_def ts_year_def ts_month_def ts_day_def)

lemma le_last_of_year:
  "valid_date d \<Longrightarrow> (d \<le> (y, 12, 31)) = (ts_year d \<le> y)"
  by (cases d)
    (auto simp: valid_date_def ts_year_def ts_month_def ts_day_def days_in_month_def
      split: if_splits)

lemma ts_year_mono: "d \<le> d' \<Longrightarrow> ts_year d \<le> ts_year (d' :: date)"
  by (cases d; cases d') (auto simp: ts_year_def)

lemma in_year_piece:
  assumes "valid_date d"
  shows "in_piece d (year_piece start end y) = (start \<le> d \<and> d \<le> end \<and> ts_year d = y)"
  using first_of_year_le [OF assms, of y] le_last_of_year [OF assms, of y]
  by (auto simp: in_piece_def year_piece_def)

lemma length_filter_eq_upto:
  "length (filter (\<lambda>y. k = y) [a..b]) = (if a \<le> k \<and> k \<le> b then 1 else 0)"
proof (induction a b rule: upto.induct)
  case (1 i j)
  show ?case
  proof (cases "i \<le> j")
    case True
    then show ?thesis using "1.IH" by (auto simp: upto_rec1 [of i j])
  next
    case False
    then show ?thesis by simp
  qed
qed

lemma count_pieces:
  assumes "valid_date d"
  shows "length (filter (in_piece d) (map (year_piece start end) [ts_year start..ts_year end])) =
     (if start \<le> d \<and> d \<le> end then 1 else 0)"
proof -
  have "filter (in_piece d) (map (year_piece start end) [ts_year start..ts_year end]) =
      map (year_piece start end)
        (filter (\<lambda>y. start \<le> d \<and> d \<le> end \<and> ts_year d = y) [ts_year start..ts_year end])"
    by (simp add: filter_map o_def in_year_piece [OF assms])
  moreover have "length (filter (\<lambda>y. start \<le> d \<and> d \<le> end \<and> ts_year d = y)
      [ts_year start..ts_year end]) = (if start \<le> d \<and> d \<le> end then 1 else 0)"
  proof (cases "start \<le> d \<and> d \<le> end")
    case True
    then have "ts_year start \<le> ts_year d \<and> ts_year d \<le> ts_year end"
      by (simp add: ts_year_mono)
    with True show ?thesis by (simp add: length_filter_eq_upto)
  next
    case False
    then show ?thesis by auto
  qed
  ultimately show ?thesis by simp
qed



lemma valid_first: "valid_date (y, 1, 1)"
  by (simp add: valid_date_def ts_month_def ts_day_def days_in_month_def)

lemma valid_last: "valid_date (y, 12, 31)"
  by (simp add: valid_date_def ts_month_def ts_day_def days_in_month_def)

lemma year_piece_props:
  assumes "valid_date start" "valid_date end" "start \<le> end"
    and "ts_year start \<le> y" "y \<le> ts_year end"
  shows "valid_date (fst (year_piece start end y))"
    and "valid_date (snd (year_piece start end y))"
    and "fst (year_piece start end y) \<le> snd (year_piece start end y)"
    and "ts_year (fst (year_piece start end y)) = y"
    and "ts_year (snd (year_piece start end y)) = y"
proof -
  show "valid_date (fst (year_piece start end y))"
    using assms(1) valid_first by (simp add: year_piece_def max_def)
  show "valid_date (snd (year_piece start end y))"
    using assms(2) valid_last by (simp add: year_piece_def min_def)
  have a: "start \<le> (y, 12, 31)" using le_last_of_year [OF assms(1)] assms(4) by simp
  have b: "(y, 1, 1) \<le> end" using first_of_year_le [OF assms(2)] assms(5) by simp
  have c: "((y, 1, 1) :: date) \<le> (y, 12, 31)" by simp
  show "fst (year_piece start end y) \<le> snd (year_piece start end y)"
    using a b c assms(3) by (simp add: year_piece_def)
  show "ts_year (fst (year_piece start end y)) = y"
    using assms(4) first_of_year_le [OF assms(1), of y]
    by (auto simp: year_piece_def max_def ts_year_def)
  show "ts_year (snd (year_piece start end y)) = y"
    using assms(5) le_last_of_year [OF assms(2), of y]
    by (auto simp: year_piece_def min_def ts_year_def)
qed

lemma year_piece_before:
  assumes "y < y'"
  shows "snd (year_piece start end y) < fst (year_piece start end y')"
proof -
  have "snd (year_piece start end y) \<le> (y, 12, 31)" by (simp add: year_piece_def)
  also have "\<dots> < (y', 1, 1)" using assms by simp
  also have "\<dots> \<le> fst (year_piece start end y')" by (simp add: year_piece_def)
  finally show ?thesis .
qed

lemma chunks_2024_2025: "make_year_chunks (2024, 1, 1) (2025, 9, 16) =
         [(''2024-01-01'', ''2024-12-31''), (''2025-01-01'', ''2025-09-16'')]"
  by (simp add: make_year_chunks_map fmt_piece_def year_piece_def strftime_ymd_def zero_pad_def
      ts_year_def ts_month_def ts_day_def digit_char_def upto.simps)

text \<open>
  C4. For valid dates with \<open>start \<le> end\<close>, \<open>make_year_chunks\<close> prints the pieces
  \<open>year_pieces start end\<close>: one per calendar year from the year of \<open>start\<close> to the year of
  \<open>end\<close>, in that order; each piece is clipped to its year and to the range, holds valid
  dates and is not empty; an earlier piece ends before a later one starts; and every
  valid date lies in exactly one piece when it is in the range and in none otherwise.
  Chunking 2024-01-01..2025-09-16 gives the two pieces of the scenario.
\<close>

theorem make_year_chunks_partition:
  assumes "valid_date start" "valid_date end" "start \<le> end"
  shows "make_year_chunks start end = map fmt_piece (year_pieces start end)
    \<and> map (ts_year \<circ> fst) (year_pieces start end) = [ts_year start..ts_year end]
    \<and> (\<forall>p \<in> set (year_pieces start end).
          fst p = max start (ts_year (fst p), 1, 1) \<and> snd p = min end (ts_year (fst p), 12, 31) \<and>
          valid_date (fst p) \<and> valid_date (snd p) \<and> fst p \<le> snd p \<and>
          ts_year (snd p) = ts_year (fst p))
    \<and> (\<forall>i j. i < j \<and> j < length (year_pieces start end) \<longrightarrow>
          snd (year_pieces start end ! i) < fst (year_pieces start end ! j))
    \<and> (\<forall>d. valid_date d \<longrightarrow>
          length (filter (in_piece d) (year_pieces start end)) =
            (if start \<le> d \<and> d \<le> end then 1 else 0))
    \<and> make_year_chunks (2024, 1, 1) (2025, 9, 16) =
         [(''2024-01-01'', ''2024-12-31''), (''2025-01-01'', ''2025-09-16'')]"
proof (intro conjI)
  show "make_year_chunks start end = map fmt_piece (year_pieces start end)"
    by (simp add: make_year_chunks_map year_pieces_def)
  show "map (ts_year \<circ> fst) (year_pieces start end) = [ts_year start..ts_year end]"
    unfolding year_pieces_def map_map
    by (rule map_idI) (simp add: year_piece_props(4) [OF assms])
  show "\<forall>p \<in> set (year_pieces start end).
          fst p = max start (ts_year (fst p), 1, 1) \<and> snd p = min end (ts_year (fst p), 12, 31) \<and>
          valid_date (fst p) \<and> valid_date (snd p) \<and> fst p \<le> snd p \<and>
          ts_year (snd p) = ts_year (fst p)"
  proof
    fix p assume "p \<in> set (year_pieces start end)"
    then obtain y where y: "ts_year start \<le> y" "y \<le> ts_year end" and p: "p = year_piece start end y"
      by (auto simp: year_pieces_def)
    note pr = year_piece_props [OF assms y]
    have "fst p = max start (y, 1, 1)" "snd p = min end (y, 12, 31)"
      by (simp_all add: p year_piece_def)
    then show "fst p = max start (ts_year (fst p), 1, 1) \<and> snd p = min end (ts_year (fst p), 12, 31) \<and>
          valid_date (fst p) \<and> valid_date (snd p) \<and> fst p \<le> snd p \<and>
          ts_year (snd p) = ts_year (fst p)"
      using pr unfolding p by simp
  qed
  show "\<forall>i j. i < j \<and> j < length (year_pieces start end) \<longrightarrow>
          snd (year_pieces start end ! i) < fst (year_pieces start end ! j)"
    by (auto simp: year_pieces_def intro!: year_piece_before)
  show "\<forall>d. valid_date d \<longrightarrow>
          length (filter (in_piece d) (year_pieces start end)) =
            (if start \<le> d \<and> d \<le> end then 1 else 0)"
    using count_pieces by (simp add: year_pieces_def)
  show "make_year_chunks (2024, 1, 1) (2025, 9, 16) =
         [(''2024-01-01'', ''2024-12-31''), (''2025-01-01'', ''2025-09-16'')]"
    by (rule chunks_2024_2025)
qed

theorem make_year_chunks_partition_witness:
  "valid_date (2024, 1, 1) \<and> valid_date (2025, 9, 16) \<and> ((2024, 1, 1) :: date) \<le> (2025, 9, 16) \<and>
   make_year_chunks (2024, 1, 1) (2025, 9, 16) =
     map fmt_piece (year_pieces (2024, 1, 1) (2025, 9, 16)) \<and>
   length (filter (in_piece (2025, 1, 1)) (year_pieces (2024, 1, 1) (2025, 9, 16))) = 1"
proof -
  have v: "valid_date (2024, 1, 1)" "valid_date (2025, 9, 16)" "valid_date (2025, 1, 1)"
    by (simp_all add: valid_date_def ts_month_def ts_day_def ts_year_def days_in_month_def)
  have le: "((2024, 1, 1) :: date) \<le> (2025, 9, 16)" by simp
  show ?thesis
    using make_year_chunks_partition [OF v(1) v(2) le] v by simp
qed

section \<open>Properties of the normalisation\<close>

lemma set_drop_duplicates_subset: "set (drop_duplicates_time xs) \<subseteq> set xs"
  by (induction xs rule: drop_duplicates_time.induct) auto

lemma times_drop_duplicates:
  "set (map row_time (drop_duplicates_time xs)) = set (map row_time xs)"
  by (induction xs rule: drop_duplicates_time.induct) auto

lemma distinct_drop_duplicates: "distinct (map row_time (drop_duplicates_time xs))"
proof (induction xs rule: drop_duplicates_time.induct)
  case 1
  show ?case by simp
next
  case (2 r rs)
  have "row_time r \<notin> row_time ` set (drop_duplicates_time (filter (\<lambda>r'. row_time r' \<noteq> row_time r) rs))"
    using set_drop_duplicates_subset [of "filter (\<lambda>r'. row_time r' \<noteq> row_time r) rs"] by auto
  with 2 show ?case by simp
qed

lemma sorted_filter_times:
  "sorted (map row_time xs) \<Longrightarrow> sorted (map row_time (filter P xs))"
  by (induction xs) auto

lemma sorted_drop_duplicates:
  "sorted (map row_time xs) \<Longrightarrow> sorted (map row_time (drop_duplicates_time xs))"
proof (induction xs rule: drop_duplicates_time.induct)
  case 1
  show ?case by simp
next
  case (2 r rs)
  let ?f = "filter (\<lambda>r'. row_time r' \<noteq> row_time r) rs"
  have "sorted (map row_time ?f)" using "2.prems" by (simp add: sorted_filter_times)
  then have s: "sorted (map row_time (drop_duplicates_time ?f))" by (rule "2.IH")
  have "\<forall>x \<in> set (drop_duplicates_time ?f). row_time r \<le> row_time x"
    using set_drop_duplicates_subset [of ?f] "2.prems" by auto
  with s show ?case by simp
qed

lemma first_row_kept:
  "r \<in> set (drop_duplicates_time xs) \<Longrightarrow> find (\<lambda>r'. row_time r' = row_time r) xs = Some r"
proof (induction xs rule: drop_duplicates_time.induct)
  case 1
  then show ?case by simp
next
  case (2 a rs)
  let ?f = "filter (\<lambda>r'. row_time r' \<noteq> row_time a) rs"
  show ?case
  proof (cases "r = a")
    case True
    then show ?thesis by simp
  next
    case False
    with "2.prems" have in_rest: "r \<in> set (drop_duplicates_time ?f)" by simp
    then have "r \<in> set ?f" using set_drop_duplicates_subset by blast
    then have ne: "row_time r \<noteq> row_time a" by simp
    have "find (\<lambda>r'. row_time r' = row_time r) ?f = Some r" using in_rest by (rule "2.IH")
    moreover have "find (\<lambda>r'. row_time r' = row_time r) ?f = find (\<lambda>r'. row_time r' = row_time r) rs"
      using ne by (induction rs) auto
    ultimately show ?thesis using ne by simp
  qed
qed

lemma length_drop_duplicates:
  "length (drop_duplicates_time xs) = card (set (map row_time xs))"
proof -
  have "length (drop_duplicates_time xs) = length (map row_time (drop_duplicates_time xs))" by simp
  also have "\<dots> = card (set (map row_time (drop_duplicates_time xs)))"
    using distinct_drop_duplicates [of xs] by (simp only: distinct_card)
  finally show ?thesis by (simp only: times_drop_duplicates)
qed

lemma length_one_duplicate:
  assumes "count_list ts t = 2" and "\<forall>u. u \<noteq> t \<longrightarrow> count_list ts u \<le> 1"
  shows "length ts = card (set ts) + 1"
proof -
  have fin: "finite (set ts)" by simp
  have tin: "t \<in> set ts" using assms(1) count_list_0_iff [of ts t] by auto
  have one: "\<And>u. u \<in> set ts - {t} \<Longrightarrow> count_list ts u = 1"
  proof -
    fix u assume u: "u \<in> set ts - {t}"
    then have "count_list ts u \<noteq> 0" by (simp add: count_list_0_iff)
    moreover have "count_list ts u \<le> 1" using u assms(2) by simp
    ultimately show "count_list ts u = 1" by simp
  qed
  have "length ts = sum (count_list ts) (set ts)"
    by (simp add: sum_count_set)
  also have "\<dots> = count_list ts t + sum (count_list ts) (set ts - {t})"
    using tin by (simp add: sum.remove)
  also have "sum (count_list ts) (set ts - {t}) = sum (\<lambda>u. 1) (set ts - {t})"
    using one by (intro sum.cong) auto
  also have "\<dots> = card (set ts) - 1" using tin by simp
  finally show ?thesis using assms(1) tin card_gt_0_iff [of "set ts"] by auto
qed

lemma dt_hour_bounds: "0 \<le> dt_hour t \<and> dt_hour t \<le> 23"
proof -
  have a: "0 \<le> t mod 86400" and b: "t mod 86400 \<le> 86399" by simp_all
  have "(t mod 86400) div 3600 \<le> 86399 div 3600" using b by (rule zdiv_mono1) simp
  moreover have "0 \<le> (t mod 86400) div 3600" using a by (simp add: pos_imp_zdiv_nonneg_iff)
  ultimately show ?thesis by (simp add: dt_hour_def)
qed

lemma hourly_check_passes: "list_all (\<lambda>t. dt_hour t \<in> set [0..23]) ts"
  by (simp add: list_all_iff dt_hour_bounds)

lemma normalize_no_hour_failure: "normalize sort_values dfs \<noteq> Inl NonHourlyTimestamps"
  unfolding normalize_def Let_def by (simp add: list_all_iff dt_hour_bounds)

lemma normalize_result:
  assumes "dfs \<noteq> []" and "sorted (map row_time (sort_values (concat dfs)))"
    and "length (sort_values (concat dfs)) = length (concat dfs)"
  shows "normalize sort_values dfs =
     Inr \<lparr> df_all = drop_duplicates_time (sort_values (concat dfs)),
     dropped = length (concat dfs) - length (drop_duplicates_time (sort_values (concat dfs))),
     bad = length (filter (\<lambda>d. d \<noteq> hours 1)
        (diffs (map row_time (drop_duplicates_time (sort_values (concat dfs)))))) \<rparr>"
proof -
  have a: "sorted (map row_time (drop_duplicates_time (sort_values (concat dfs))))"
    using assms(2) by (rule sorted_drop_duplicates)
  have c: "list_all (\<lambda>t. dt_hour t \<in> set [0..23])
      (map row_time (drop_duplicates_time (sort_values (concat dfs))))"
    by (rule hourly_check_passes)
  show ?thesis
    unfolding normalize_def Let_def is_monotonic_increasing_def
    using assms(1) by (simp only: a assms(3) c) simp
qed

lemma sorts_by_time_stable: "sorts_by_time (sort_key row_time)"
  by (simp add: sorts_by_time_def)

text \<open>
  C7. Whenever at least one frame was fetched, and whatever order the sort leaves among
  rows of equal time, normalisation returns a table whose timestamps are strictly
  ascending (sorted, none repeated) and are exactly the timestamps of the input; each
  kept row is a fetched row, namely the first row with its timestamp in the table as
  sorted; the count of dropped rows is the number of rows removed; and when exactly one
  timestamp occurs twice and every other once, the result has one row fewer and the
  count is 1.
\<close>

theorem normalize_sorted_dedup:
  assumes "dfs \<noteq> []" and "sorts_by_time sort_values"
  shows "\<exists>res. normalize sort_values dfs = Inr res
    \<and> sorted_wrt (<) (map row_time (df_all res))
    \<and> set (map row_time (df_all res)) = set (map row_time (concat dfs))
    \<and> set (df_all res) \<subseteq> set (concat dfs)
    \<and> (\<forall>r \<in> set (df_all res).
          find (\<lambda>r'. row_time r' = row_time r) (sort_values (concat dfs)) = Some r)
    \<and> dropped res + length (df_all res) = length (concat dfs)
    \<and> ((\<exists>t. count_list (map row_time (concat dfs)) t = 2 \<and>
             (\<forall>u. u \<noteq> t \<longrightarrow> count_list (map row_time (concat dfs)) u \<le> 1))
         \<longrightarrow> length (df_all res) + 1 = length (concat dfs) \<and> dropped res = 1)"
proof -
  let ?s = "sort_values (concat dfs)"
  let ?out = "drop_duplicates_time ?s"
  let ?res = "\<lparr> df_all = ?out, dropped = length (concat dfs) - length ?out,
     bad = length (filter (\<lambda>d. d \<noteq> hours 1) (diffs (map row_time ?out))) \<rparr>"
  have ms: "mset ?s = mset (concat dfs)" and srt: "sorted (map row_time ?s)"
    using assms(2) by (simp_all add: sorts_by_time_def del: mset_concat)
  have set_s: "set ?s = set (concat dfs)" using ms by (rule mset_eq_setD)
  have len_s: "length ?s = length (concat dfs)" using ms by (rule mset_eq_length)
  have res: "normalize sort_values dfs = Inr ?res"
    using assms(1) srt len_s by (rule normalize_result)
  have "sorted (map row_time ?out)" using srt by (rule sorted_drop_duplicates)
  then have strict: "sorted_wrt (<) (map row_time ?out)"
    using distinct_drop_duplicates [of ?s] by (simp add: strict_sorted_iff)
  have times: "set (map row_time ?out) = set (map row_time (concat dfs))"
    using times_drop_duplicates [of ?s] set_s by simp
  have sub: "set ?out \<subseteq> set (concat dfs)"
    using set_drop_duplicates_subset [of ?s] set_s by simp
  have first: "\<forall>r \<in> set ?out. find (\<lambda>r'. row_time r' = row_time r) ?s = Some r"
    using first_row_kept by blast
  have len: "length ?out = card (set (map row_time (concat dfs)))"
    using length_drop_duplicates [of ?s] set_s by simp
  have le: "length ?out \<le> length (concat dfs)"
    unfolding len using card_length [of "map row_time (concat dfs)"] by simp
  have one: "(\<exists>t. count_list (map row_time (concat dfs)) t = 2 \<and>
             (\<forall>u. u \<noteq> t \<longrightarrow> count_list (map row_time (concat dfs)) u \<le> 1))
         \<longrightarrow> length ?out + 1 = length (concat dfs) \<and> length (concat dfs) - length ?out = 1"
  proof
    assume "\<exists>t. count_list (map row_time (concat dfs)) t = 2 \<and>
             (\<forall>u. u \<noteq> t \<longrightarrow> count_list (map row_time (concat dfs)) u \<le> 1)"
    then obtain t where "count_list (map row_time (concat dfs)) t = 2"
      and "\<forall>u. u \<noteq> t \<longrightarrow> count_list (map row_time (concat dfs)) u \<le> 1" by blast
    then have "length (map row_time (concat dfs)) = card (set (map row_time (concat dfs))) + 1"
      by (rule length_one_duplicate)
    then show "length ?out + 1 = length (concat dfs) \<and> length (concat dfs) - length ?out = 1"
      unfolding len by simp
  qed
  show ?thesis
    apply (rule exI [of _ ?res])
    using res strict times sub first le one by (simp del: length_concat set_concat)
qed

text \<open>
  The scenario of two fetched frames that overlap in the hour 01:00, sorted by the
  stable sort as one admissible \<open>sort_values\<close>.
\<close>

theorem normalize_sorted_dedup_witness:
  "[[(0, Some 1), (3600, Some 2)], [(3600, Some 2), (7200, Some 4)]] \<noteq> ([] :: obs_row list list)
   \<and> sorts_by_time (sort_key row_time)
   \<and> count_list (map row_time (concat [[(0, Some 1), (3600, Some 2)], [(3600, Some 2), (7200, Some 4)]])) 3600 = 2
   \<and> (\<exists>res. normalize (sort_key row_time)
          [[(0, Some 1), (3600, Some 2)], [(3600, Some 2), (7200, Some 4)]] = Inr res
        \<and> df_all res = [(0, Some 1), (3600, Some 2), (7200, Some 4)]
        \<and> length (df_all res) + 1 = 4 \<and> dropped res = 1)"
proof -
  let ?dfs = "[[(0, Some 1), (3600, Some 2)], [(3600, Some 2), (7200, Some 4)]] :: obs_row list list"
  have ne: "?dfs \<noteq> []" by simp
  have c: "count_list (map row_time (concat ?dfs)) 3600 = 2"
    by (simp add: row_time_def)
  have o: "\<forall>u. u \<noteq> 3600 \<longrightarrow> count_list (map row_time (concat ?dfs)) u \<le> 1"
    by (simp add: row_time_def)
  have ev: "normalize (sort_key row_time) ?dfs =
      Inr \<lparr> df_all = [(0, Some 1), (3600, Some 2), (7200, Some 4)], dropped = 1, bad = 0 \<rparr>"
    by (simp add: normalize_def row_time_def is_monotonic_increasing_def
        diffs_def hours_def dt_hour_def Let_def)
  from normalize_sorted_dedup [OF ne sorts_by_time_stable] c o
  obtain res where "normalize (sort_key row_time) ?dfs = Inr res"
    and "length (df_all res) + 1 = length (concat ?dfs) \<and> dropped res = 1"
    by blast
  with ev ne c sorts_by_time_stable show ?thesis by auto
qed

text \<open>
  C5. The check \<open>dt.hour.isin(range(24))\<close> holds of every timestamp. The table with the
  single timestamp 2020-01-01 00:30 is normalised without error by every sort, and the
  failure \<open>NonHourlyTimestamps\<close> is returned for no input and no sort at all.
\<close>

theorem normalize_accepts_half_hour:
  "dt_date 1577838600 = (2020, 1, 1) \<and> dt_hour 1577838600 = 0 \<and> dt_minute 1577838600 = 30
   \<and> (\<forall>sort_values. sorts_by_time sort_values \<longrightarrow>
        normalize sort_values [[(1577838600, Some 20)]] =
          Inr \<lparr> df_all = [(1577838600, Some 20)], dropped = 0, bad = 0 \<rparr>)
   \<and> (\<forall>sort_values dfs. normalize sort_values dfs \<noteq> Inl NonHourlyTimestamps)"
proof (intro conjI allI impI)
  show "dt_date 1577838600 = (2020, 1, 1)" by code_simp
  show "dt_hour 1577838600 = 0" by (simp add: dt_hour_def)
  show "dt_minute 1577838600 = 30" by (simp add: dt_minute_def)
next
  fix sort_values :: "obs_row list \<Rightarrow> obs_row list"
  assume "sorts_by_time sort_values"
  then have "mset (sort_values [(1577838600, Some 20)]) = mset [(1577838600, Some 20)]"
    by (simp add: sorts_by_time_def)
  then have s: "sort_values [(1577838600, Some 20)] = [(1577838600, Some 20)]"
    by (simp add: mset_single_iff_right)
  show "normalize sort_values [[(1577838600, Some 20)]] =
      Inr \<lparr> df_all = [(1577838600, Some 20)], dropped = 0, bad = 0 \<rparr>"
    by (simp add: normalize_def s row_time_def is_monotonic_increasing_def
        diffs_def hours_def dt_hour_def Let_def)
next
  fix sort_values :: "obs_row list \<Rightarrow> obs_row list" and dfs :: "obs_row list list"
  show "normalize sort_values dfs \<noteq> Inl NonHourlyTimestamps"
    by (rule normalize_no_hour_failure)
qed

theorem normalize_accepts_half_hour_witness:
  "sorts_by_time (sort_key row_time)
   \<and> normalize (sort_key row_time) [[(1577838600, Some 20)]] =
       Inr \<lparr> df_all = [(1577838600, Some 20)], dropped = 0, bad = 0 \<rparr>"
  using normalize_accepts_half_hour sorts_by_time_stable by blast

section \<open>Properties of the cadence validator\<close>







section \<open>Properties of the inference frame\<close>

lemma those_time_of: "those (map time_of (map TimeC ts)) = Some ts"
  by (induction ts) (simp_all add: time_of_def)

lemma to_datetime_parsed: "to_datetime (map TimeC ts) = Inr ts"
  unfolding to_datetime_def those_time_of by simp

lemma add_time_features_columns:
  "\<exists>out. add_time_features [(''time'', map TimeC ts)] ''time'' = Inr out \<and>
     df_columns out = [''time'', ''hour'', ''day_of_week'', ''is_weekend'', ''sin_hour'',
       ''cos_hour'', ''sin_doy'', ''cos_doy''] \<and>
     df_col out ''time'' = Some (map TimeC ts)"
  by (simp add: add_time_features_def time_column_def df_col_def to_datetime_parsed
      df_assign_def df_columns_def Let_def)

text \<open>
  C9. For all dates \<open>t0\<close> and \<open>t1\<close>, \<open>build_infer_features\<close> returns a frame and
  never the leakage error: the frame has exactly the generated time column followed by
  the seven calendar features, so neither \<open>temp_obs\<close> nor \<open>temperature_2m\<close> is among
  its columns.
\<close>

theorem build_infer_features_no_leakage:
  "\<exists>df. build_infer_features t0 t1 = Inr df
     \<and> df_columns df = [''time'', ''hour'', ''day_of_week'', ''is_weekend'', ''sin_hour'',
          ''cos_hour'', ''sin_doy'', ''cos_doy'']
     \<and> df_col df ''time'' = Some (map TimeC (date_range_hourly t0 (t1 + hours 23)))
     \<and> ''temp_obs'' \<notin> set (df_columns df) \<and> ''temperature_2m'' \<notin> set (df_columns df)
     \<and> build_infer_features t0 t1 \<noteq> Inl Leakage"
proof -
  obtain out where a: "add_time_features
        [(''time'', map TimeC (date_range_hourly t0 (t1 + hours 23)))] ''time'' = Inr out"
    and c: "df_columns out = [''time'', ''hour'', ''day_of_week'', ''is_weekend'', ''sin_hour'',
       ''cos_hour'', ''sin_doy'', ''cos_doy'']"
    and t: "df_col out ''time'' = Some (map TimeC (date_range_hourly t0 (t1 + hours 23)))"
    using add_time_features_columns by blast
  have "build_infer_features t0 t1 = Inr out"
    by (simp add: build_infer_features_def Let_def a c)
  with c t show ?thesis by simp
qed

section \<open>Properties of the calendar features\<close>

lemma add_time_features_result:
  assumes "time_column df ts_col = Inr ts"
  shows "add_time_features df ts_col = Inr
    (AList.update ''cos_doy'' (map (\<lambda>d. FltC (cos (2 * pi * of_int d / 365))) (map dt_dayofyear ts))
    (AList.update ''sin_doy'' (map (\<lambda>d. FltC (sin (2 * pi * of_int d / 365))) (map dt_dayofyear ts))
    (AList.update ''cos_hour'' (map (\<lambda>h. FltC (cos (2 * pi * of_int h / 24))) (map dt_hour ts))
    (AList.update ''sin_hour'' (map (\<lambda>h. FltC (sin (2 * pi * of_int h / 24))) (map dt_hour ts))
    (AList.update ''is_weekend'' (map (\<lambda>d. IntC (if d \<ge> 5 then 1 else 0)) (map dt_dayofweek ts))
    (AList.update ''day_of_week'' (map IntC (map dt_dayofweek ts))
    (AList.update ''hour'' (map IntC (map dt_hour ts)) df)))))))"
  unfolding add_time_features_def assms df_assign_def Let_def by simp

text \<open>
  C8. When the timestamp column parses and is not itself one of the seven feature
  columns, \<open>add_time_features\<close> succeeds; each feature column of the result is the
  stated function of the timestamps alone, whatever else the frame holds; every other
  column is the one of the input; and applying the function to its own result returns
  that result unchanged.
\<close>

theorem add_time_features_idempotent:
  assumes "time_column df ts_col = Inr ts"
    and "ts_col \<notin> set [''hour'', ''day_of_week'', ''is_weekend'', ''sin_hour'', ''cos_hour'',
           ''sin_doy'', ''cos_doy'']"
  shows "\<exists>out. add_time_features df ts_col = Inr out
    \<and> df_col out ''hour'' = Some (map (\<lambda>t. IntC (dt_hour t)) ts)
    \<and> df_col out ''day_of_week'' = Some (map (\<lambda>t. IntC (dt_dayofweek t)) ts)
    \<and> df_col out ''is_weekend'' = Some (map (\<lambda>t. IntC (if dt_dayofweek t \<ge> 5 then 1 else 0)) ts)
    \<and> df_col out ''sin_hour'' = Some (map (\<lambda>t. FltC (sin (2 * pi * of_int (dt_hour t) / 24))) ts)
    \<and> df_col out ''cos_hour'' = Some (map (\<lambda>t. FltC (cos (2 * pi * of_int (dt_hour t) / 24))) ts)
    \<and> df_col out ''sin_doy'' = Some (map (\<lambda>t. FltC (sin (2 * pi * of_int (dt_dayofyear t) / 365))) ts)
    \<and> df_col out ''cos_doy'' = Some (map (\<lambda>t. FltC (cos (2 * pi * of_int (dt_dayofyear t) / 365))) ts)
    \<and> (\<forall>c. c \<notin> set [''hour'', ''day_of_week'', ''is_weekend'', ''sin_hour'', ''cos_hour'',
           ''sin_doy'', ''cos_doy''] \<longrightarrow> df_col out c = df_col df c)
    \<and> add_time_features out ts_col = Inr out"
proof -
  define c1 where "c1 = map IntC (map dt_hour ts)"
  define c2 where "c2 = map IntC (map dt_dayofweek ts)"
  define c3 where "c3 = map (\<lambda>d. IntC (if d \<ge> 5 then 1 else 0)) (map dt_dayofweek ts)"
  define c4 where "c4 = map (\<lambda>h. FltC (sin (2 * pi * of_int h / 24))) (map dt_hour ts)"
  define c5 where "c5 = map (\<lambda>h. FltC (cos (2 * pi * of_int h / 24))) (map dt_hour ts)"
  define c6 where "c6 = map (\<lambda>d. FltC (sin (2 * pi * of_int d / 365))) (map dt_dayofyear ts)"
  define c7 where "c7 = map (\<lambda>d. FltC (cos (2 * pi * of_int d / 365))) (map dt_dayofyear ts)"
  define out where "out = AList.update ''cos_doy'' c7 (AList.update ''sin_doy'' c6
    (AList.update ''cos_hour'' c5 (AList.update ''sin_hour'' c4 (AList.update ''is_weekend'' c3
    (AList.update ''day_of_week'' c2 (AList.update ''hour'' c1 df))))))"
  have res: "\<And>d. time_column d ts_col = Inr ts \<Longrightarrow> add_time_features d ts_col =
    Inr (AList.update ''cos_doy'' c7 (AList.update ''sin_doy'' c6
    (AList.update ''cos_hour'' c5 (AList.update ''sin_hour'' c4 (AList.update ''is_weekend'' c3
    (AList.update ''day_of_week'' c2 (AList.update ''hour'' c1 d)))))))"
    unfolding c1_def c2_def c3_def c4_def c5_def c6_def c7_def by (rule add_time_features_result)
  have first: "add_time_features df ts_col = Inr out"
    unfolding out_def using assms(1) by (rule res)
  have mo: "map_of out = (map_of df)(''hour'' \<mapsto> c1, ''day_of_week'' \<mapsto> c2, ''is_weekend'' \<mapsto> c3,
      ''sin_hour'' \<mapsto> c4, ''cos_hour'' \<mapsto> c5, ''sin_doy'' \<mapsto> c6, ''cos_doy'' \<mapsto> c7)"
    unfolding out_def by (simp only: update_conv')
  have h1: "df_col out ''hour'' = Some c1" and h2: "df_col out ''day_of_week'' = Some c2"
    and h3: "df_col out ''is_weekend'' = Some c3" and h4: "df_col out ''sin_hour'' = Some c4"
    and h5: "df_col out ''cos_hour'' = Some c5" and h6: "df_col out ''sin_doy'' = Some c6"
    and h7: "df_col out ''cos_doy'' = Some c7"
    unfolding df_col_def mo by simp_all
  have other: "\<forall>c. c \<notin> set [''hour'', ''day_of_week'', ''is_weekend'', ''sin_hour'', ''cos_hour'',
           ''sin_doy'', ''cos_doy''] \<longrightarrow> df_col out c = df_col df c"
    unfolding df_col_def mo by simp
  have "df_col out ts_col = df_col df ts_col" using other assms(2) by blast
  then have tc: "time_column out ts_col = Inr ts"
    using assms(1) by (simp add: time_column_def)
  have u1: "AList.update ''hour'' c1 out = out"
    using h1 unfolding df_col_def by (rule update_triv)
  have u2: "AList.update ''day_of_week'' c2 out = out"
    using h2 unfolding df_col_def by (rule update_triv)
  have u3: "AList.update ''is_weekend'' c3 out = out"
    using h3 unfolding df_col_def by (rule update_triv)
  have u4: "AList.update ''sin_hour'' c4 out = out"
    using h4 unfolding df_col_def by (rule update_triv)
  have u5: "AList.update ''cos_hour'' c5 out = out"
    using h5 unfolding df_col_def by (rule update_triv)
  have u6: "AList.update ''sin_doy'' c6 out = out"
    using h6 unfolding df_col_def by (rule update_triv)
  have u7: "AList.update ''cos_doy'' c7 out = out"
    using h7 unfolding df_col_def by (rule update_triv)
  have second: "add_time_features out ts_col = Inr out"
    unfolding res [OF tc] by (simp only: u1 u2 u3 u4 u5 u6 u7)
  show ?thesis
    apply (rule exI [of _ out])
    using first second other h1 h2 h3 h4 h5 h6 h7
    unfolding c1_def c2_def c3_def c4_def c5_def c6_def c7_def
    by (simp add: o_def)
qed

theorem add_time_features_idempotent_witness:
  "time_column [(''time'', [TimeC 0, TimeC 3600]), (''temp_obs'', [FltC 1, FltC 2])] ''time''
      = Inr [0, 3600]
   \<and> ''time'' \<notin> set [''hour'', ''day_of_week'', ''is_weekend'', ''sin_hour'', ''cos_hour'',
           ''sin_doy'', ''cos_doy'']
   \<and> (\<exists>out. add_time_features [(''time'', [TimeC 0, TimeC 3600]), (''temp_obs'', [FltC 1, FltC 2])]
          ''time'' = Inr out
        \<and> df_col out ''hour'' = Some [IntC 0, IntC 1]
        \<and> df_col out ''day_of_week'' = Some [IntC 3, IntC 3]
        \<and> df_col out ''is_weekend'' = Some [IntC 0, IntC 0]
        \<and> df_col out ''temp_obs'' = Some [FltC 1, FltC 2]
        \<and> add_time_features out ''time'' = Inr out)"
proof -
  let ?df = "[(''time'', [TimeC 0, TimeC 3600]), (''temp_obs'', [FltC 1, FltC 2])]"
  have tc: "time_column ?df ''time'' = Inr [0, 3600]"
    by (simp add: time_column_def df_col_def to_datetime_def time_of_def)
  have nm: "''time'' \<notin> set [''hour'', ''day_of_week'', ''is_weekend'', ''sin_hour'', ''cos_hour'',
           ''sin_doy'', ''cos_doy'']" by simp
  have o: "''temp_obs'' \<notin> set [''hour'', ''day_of_week'', ''is_weekend'', ''sin_hour'', ''cos_hour'',
           ''sin_doy'', ''cos_doy'']" by simp
  have v: "dt_hour 0 = 0" "dt_hour 3600 = 1" "dt_dayofweek 0 = 3" "dt_dayofweek 3600 = 3"
    by (simp_all add: dt_hour_def dt_dayofweek_def)
  have d: "df_col ?df ''temp_obs'' = Some [FltC 1, FltC 2]" by (simp add: df_col_def)
  from add_time_features_idempotent [OF tc nm]
  obtain out where "add_time_features ?df ''time'' = Inr out"
    and "df_col out ''hour'' = Some (map (\<lambda>t. IntC (dt_hour t)) [0, 3600])"
    and "df_col out ''day_of_week'' = Some (map (\<lambda>t. IntC (dt_dayofweek t)) [0, 3600])"
    and "df_col out ''is_weekend'' =
           Some (map (\<lambda>t. IntC (if dt_dayofweek t \<ge> 5 then 1 else 0)) [0, 3600])"
    and "\<forall>c. c \<notin> set [''hour'', ''day_of_week'', ''is_weekend'', ''sin_hour'', ''cos_hour'',
           ''sin_doy'', ''cos_doy''] \<longrightarrow> df_col out c = df_col ?df c"
    and "add_time_features out ''time'' = Inr out"
    by blast
  with tc nm o d v show ?thesis by (intro conjI exI [of _ out]) simp_all
qed

section \<open>Properties of the climatology fallback\<close>








section \<open>Properties of the rolling statistics with fallback\<close>









end
